theory Spec2Isabelle
  imports Main "HOL-Library.Sublist" "HOL-Library.Char_ord" "HOL-Library.List_Lexorder"
begin

section \<open>Text helpers of the scraper\<close>

text \<open>
  Python strings are modelled as \<open>string\<close> (lists of 8-bit characters); the names, links
  and keywords handled by the scrapers are taken to be ASCII text, on which
  \<^verbatim>\<open>str.upper\<close>, \<^verbatim>\<open>str.isupper\<close>, \<^verbatim>\<open>str.split\<close> and \<^verbatim>\<open>in\<close> act as defined below.
\<close>

text \<open>\<^verbatim>\<open>needle in hay\<close> on strings: \<open>needle\<close> occurs as a contiguous block of \<open>hay\<close>.\<close>

fun py_in :: "string \<Rightarrow> string \<Rightarrow> bool" where
  "py_in needle [] = (needle = [])"
| "py_in needle (c # cs) = (prefix needle (c # cs) \<or> py_in needle cs)"

text \<open>\<^verbatim>\<open>s.startswith(p)\<close>.\<close>

definition startswith :: "string \<Rightarrow> string \<Rightarrow> bool" where
  "startswith s p = prefix p s"

text \<open>The ASCII characters for which \<^verbatim>\<open>str.isspace\<close> holds (tab, line feed, vertical tab,
  form feed, carriage return, the four separators and the space); \<^verbatim>\<open>str.split()\<close> and
  \<^verbatim>\<open>str.strip()\<close> cut at them.\<close>

definition is_space :: "char \<Rightarrow> bool" where
  "is_space c = (c \<in> set [CHR 0x09, CHR 0x0A, CHR 0x0B, CHR 0x0C, CHR 0x0D,
                            CHR 0x1C, CHR 0x1D, CHR 0x1E, CHR 0x1F, CHR 0x20])"

definition lower_letters :: string where
  "lower_letters = ''abcdefghijklmnopqrstuvwxyz''"

definition upper_letters :: string where
  "upper_letters = ''ABCDEFGHIJKLMNOPQRSTUVWXYZ''"

definition is_lower :: "char \<Rightarrow> bool" where
  "is_lower c = (c \<in> set lower_letters)"

definition is_upper :: "char \<Rightarrow> bool" where
  "is_upper c = (c \<in> set upper_letters)"

definition upper_char :: "char \<Rightarrow> char" where
  "upper_char c = (case map_of (zip lower_letters upper_letters) c of None \<Rightarrow> c | Some u \<Rightarrow> u)"

text \<open>\<^verbatim>\<open>s.upper()\<close>.\<close>

definition upper :: "string \<Rightarrow> string" where
  "upper s = map upper_char s"

text \<open>\<^verbatim>\<open>s.isupper()\<close>: no lower-case letter and at least one upper-case letter.\<close>

definition isupper :: "string \<Rightarrow> bool" where
  "isupper s = ((\<forall>c \<in> set s. \<not> is_lower c) \<and> (\<exists>c \<in> set s. is_upper c))"

text \<open>\<^verbatim>\<open>s.strip()\<close>.\<close>

definition strip :: "string \<Rightarrow> string" where
  "strip s = rev (dropWhile is_space (rev (dropWhile is_space s)))"

text \<open>\<^verbatim>\<open>s.split()\<close>: the maximal runs of non-space characters, in order. The first
  argument of \<open>split_acc\<close> is the run read so far.\<close>

fun split_acc :: "string \<Rightarrow> string \<Rightarrow> string list" where
  "split_acc w [] = (if w = [] then [] else [w])"
| "split_acc w (c # cs) =
     (if is_space c then (if w = [] then split_acc [] cs else w # split_acc [] cs)
      else split_acc (w @ [c]) cs)"

definition py_split :: "string \<Rightarrow> string list" where
  "py_split s = split_acc [] s"

text \<open>\<^verbatim>\<open>sep.join(ws)\<close>.\<close>

fun join :: "string \<Rightarrow> string list \<Rightarrow> string" where
  "join sep [] = []"
| "join sep [w] = w"
| "join sep (w # v # ws) = w @ sep @ join sep (v # ws)"

text \<open>\<^verbatim>\<open>UniversityScraper.clean_text\<close>:
  \<^verbatim>\<open>if not text: return ""\<close>, else \<^verbatim>\<open>' '.join(text.strip().split())\<close>.\<close>

definition clean_text :: "string \<Rightarrow> string" where
  "clean_text text = (if text = [] then [] else join '' '' (py_split (strip text)))"

text \<open>\<^verbatim>\<open>s.replace(' ', '')\<close>.\<close>

definition remove_spaces :: "string \<Rightarrow> string" where
  "remove_spaces s = filter (\<lambda>c. c \<noteq> CHR '' '') s"

text \<open>\<^verbatim>\<open>str(n)\<close> for a natural number: its decimal digits.\<close>

definition digit_char :: "nat \<Rightarrow> char" where
  "digit_char n = ''0123456789'' ! (n mod 10)"

function str_nat :: "nat \<Rightarrow> string" where
  "str_nat n = (if n < 10 then [digit_char n] else str_nat (n div 10) @ [digit_char n])"
  by pat_completeness auto
termination
  by (relation "measure (\<lambda>n. n)") auto

declare str_nat.simps [simp del]

section \<open>Subject areas\<close>

text \<open>
  \<^verbatim>\<open>_determine_area\<close> of both scrapers runs the same loop over its own table. A Python
  dict literal iterates in the order it is written, so the table is an association
  list in source order:
  \<^verbatim>\<open>
    course_upper = course_name.upper()
    for area, keywords in areas.items():
        if any(keyword.upper() in course_upper for keyword in keywords):
            return area
    return 'Other'
  \<close>
\<close>

type_synonym area_table = "(string \<times> string list) list"

definition keyword_hit :: "string \<Rightarrow> string list \<Rightarrow> bool" where
  "keyword_hit course_upper keywords = list_ex (\<lambda>keyword. py_in (upper keyword) course_upper) keywords"

fun scan_areas :: "area_table \<Rightarrow> string \<Rightarrow> string" where
  "scan_areas [] course_upper = ''Other''"
| "scan_areas ((area, keywords) # rest) course_upper =
     (if keyword_hit course_upper keywords then area else scan_areas rest course_upper)"

definition determine_area_in :: "area_table \<Rightarrow> string \<Rightarrow> string" where
  "determine_area_in areas course_name = scan_areas areas (upper course_name)"

definition LSE_areas :: area_table where
  "LSE_areas =
    [(''Economics'', [''Economics'', ''Econometrics'', ''Economic'']),
     (''Finance'', [''Finance'', ''Accounting'', ''Actuarial'']),
     (''Politics'', [''Politics'', ''Government'', ''International Relations'']),
     (''Social Sciences'', [''Sociology'', ''Anthropology'', ''Social'']),
     (''Management'', [''Management'', ''Business'']),
     (''Data Science'', [''Data'', ''Statistics'']),
     (''Law'', [''Law'', ''Legal''])]"

definition Bologna_areas :: area_table where
  "Bologna_areas =
    [(''Engineering'', [''Engineering'', ''Computer'', ''Electronic'', ''Mechanical'']),
     (''Medicine'', [''Medicine'', ''Medical'', ''Health'', ''Pharmaceutical'']),
     (''Economics'', [''Economics'', ''Business'', ''Finance'', ''Management'']),
     (''Sciences'', [''Physics'', ''Chemistry'', ''Biology'', ''Mathematics'']),
     (''Humanities'', [''History'', ''Philosophy'', ''Literature'', ''Languages'']),
     (''Law'', [''Law'', ''Legal'', ''Juridical''])]"

definition LSE_determine_area :: "string \<Rightarrow> string" where
  "LSE_determine_area course_name = determine_area_in LSE_areas course_name"

definition Bologna_determine_area :: "string \<Rightarrow> string" where
  "Bologna_determine_area course_name = determine_area_in Bologna_areas course_name"

text \<open>
  The wording of the specification: a keyword is a case-insensitive substring of a name
  when some contiguous block of the name equals the keyword up to letter case; an area
  matches a name when one of its keywords is such a substring.
\<close>

definition ci_substring :: "string \<Rightarrow> string \<Rightarrow> bool" where
  "ci_substring keyword name = (\<exists>block. sublist block name \<and> upper block = upper keyword)"

definition area_matches :: "string \<Rightarrow> string \<times> string list \<Rightarrow> bool" where
  "area_matches name entry = (\<exists>keyword \<in> set (snd entry). ci_substring keyword name)"

section \<open>Exceptions and the URL library\<close>

text \<open>
  Exceptions are values; a call that may raise returns \<open>Inl\<close> of the exception.
\<close>

datatype exn =
    HTTPError nat
  | ConnectionError
  | Timeout
  | WebDriverException
  | AttributeError string
  | ValueError string
  | OtherException string

text \<open>
  \<^verbatim>\<open>urljoin(base, href)\<close> of the URL library on an href read from a page: the joined URL,
  or the exception the library raises (\<^verbatim>\<open>ValueError\<close> for a malformed reference such as
  \<^verbatim>\<open>//[\<close>). It is a parameter of the scrapers.
\<close>

type_synonym urljoin = "string \<Rightarrow> string \<Rightarrow> exn + string"

text \<open>
  The listing pages are fixed paths that start with a slash, joined to a base URL without
  a path: the result of \<^verbatim>\<open>urljoin\<close> is the base followed by the path.
\<close>

definition join_path :: "string \<Rightarrow> string \<Rightarrow> string" where
  "join_path base path = base @ path"

section \<open>Course records\<close>

text \<open>
  The dicts the scrapers build, with the thirteen keys of the source. Text constants
  outside ASCII are written as their UTF-8 bytes.
\<close>

record university =
  university_id :: string
  university_name :: string
  university_city :: string
  university_region :: string
  university_website :: string
  university_email :: "string option"
  university_phone :: "string option"
  university_ranking_national :: "int option"
  university_ranking_world :: "int option"

record course =
  degree_course_code :: string
  degree_course_name :: string
  degree_course_language :: string
  degree_course_period_years :: int
  degree_course_type :: string
  programme_access :: string
  academic_year :: string
  course_area :: string
  remote_mode :: string
  tuition_fees :: string
  website_university :: string
  website_course :: string
  university_id :: string

definition LSE_base_url :: string where
  "LSE_base_url = ''https://www.lse.ac.uk''"

definition LSE_university_id :: string where
  "LSE_university_id = ''LSE''"



definition LSE_tuition_fees :: string where
  "LSE_tuition_fees =
     [CHR 0xC2, CHR 0xA3] @ ''9,250 (UK), '' @ [CHR 0xC2, CHR 0xA3] @ ''26,328 (International)''"


subsection \<open>The constructor of the patched LSE scraper\<close>

text \<open>
  \<^verbatim>\<open>LSEScraper._create_course_from_text(text, link, prog_type)\<close> of
  \<^verbatim>\<open>fix_lse_scraper.py\<close>, first the chain that sets \<^verbatim>\<open>course_type\<close> and \<^verbatim>\<open>years\<close>.
\<close>

definition degree_level :: "string \<Rightarrow> string \<Rightarrow> string \<times> int" where
  "degree_level prog_type text =
     (if prog_type = ''graduate'' \<or> list_ex (\<lambda>x. py_in x text) [''MSc'', ''MA'', ''MRes'', ''MPhil'']
      then (''Master's Degree'', 1)
      else if py_in ''LLM'' text then (''Master's Degree'', 1)
      else if py_in ''PhD'' text then (''Doctoral Degree'', 4)
      else (''Bachelor's Degree'', 3))"

text \<open>The link made absolute: \<^verbatim>\<open>urljoin\<close> is called for a non-empty link that does not
  start with \<^verbatim>\<open>http\<close>, and may raise.\<close>

definition joined_link :: "urljoin \<Rightarrow> string \<Rightarrow> exn + string" where
  "joined_link urljoin link =
     (if link \<noteq> [] \<and> \<not> startswith link ''http'' then urljoin LSE_base_url link else Inr link)"

text \<open>The dict that the method returns, from the values computed before it.\<close>

definition LSE_course :: "string \<Rightarrow> string \<Rightarrow> string \<times> int \<Rightarrow> string \<Rightarrow> string \<Rightarrow> course" where
  "LSE_course code text level area link =
     \<lparr> degree_course_code = code,
       degree_course_name = text,
       degree_course_language = ''English'',
       degree_course_period_years = snd level,
       degree_course_type = fst level,
       programme_access = ''Competitive selection'',
       academic_year = ''2025/2026'',
       course_area = area,
       remote_mode = ''In-person'',
       tuition_fees = LSE_tuition_fees,
       website_university = LSE_base_url,
       website_course = (if link \<noteq> [] then link else LSE_base_url),
       university_id = LSE_university_id \<rparr>"

text \<open>
  The method itself. \<open>determine_area\<close> is what \<^verbatim>\<open>self._determine_area\<close> resolves to. The
  class that \<^verbatim>\<open>fix_lse_scraper.py\<close> writes defines no method of that name and neither
  does its base class \<^verbatim>\<open>UniversityScraper\<close>: for an object of that class it is \<open>None\<close>
  and the call, made while the dict is built, raises \<^verbatim>\<open>AttributeError\<close>. \<open>Some f\<close> stands
  for an object whose class supplies the method. The clock is read once, for the code,
  before the dict is built: \<open>clock n\<close> is the \<open>n\<close>-th reading of
  \<^verbatim>\<open>datetime.now().microsecond\<close> during the scrape, and the second component of the
  result is the number of readings made so far.
\<close>

definition create_course_from_text ::
  "(string \<Rightarrow> string) option \<Rightarrow> urljoin \<Rightarrow> (nat \<Rightarrow> nat) \<Rightarrow> nat \<Rightarrow> string \<Rightarrow> string \<Rightarrow> string \<Rightarrow>
   (exn + course option) \<times> nat" where
  "create_course_from_text determine_area urljoin clock n text0 link0 prog_type =
     (if text0 = [] then (Inr None, n)
      else
        let text = clean_text text0
        in (case joined_link urljoin link0 of
              Inl e \<Rightarrow> (Inl e, n)
            | Inr link \<Rightarrow>
                let level = degree_level prog_type text;
                    code = ''LSE_'' @ remove_spaces (upper (take 4 text)) @ ''_'' @ str_nat (clock n)
                in (case determine_area of
                      None \<Rightarrow> (Inl (AttributeError ''_determine_area''), Suc n)
                    | Some area_of \<Rightarrow>
                        (Inr (Some (LSE_course code text level (area_of text) link)), Suc n))))"

text \<open>\<^verbatim>\<open>LSEScraper._is_valid_course_name\<close>.\<close>

definition is_valid_course_name :: "string \<Rightarrow> bool" where
  "is_valid_course_name text =
     (if text = [] \<or> length text < 5 \<or> length text > 150 then False
      else
        let has_indicator = list_ex (\<lambda>ind. py_in ind text)
              [''BSc'', ''BA'', ''MSc'', ''MA'', ''LLB'', ''LLM'', ''PhD'', ''MPhil'', ''MRes''];
            has_subject = list_ex (\<lambda>subj. py_in subj text)
              [''Economics'', ''Finance'', ''Management'', ''Politics'', ''Law'', ''Sociology''];
            has_exclude = list_ex (\<lambda>exc. py_in exc text)
              [''Cookie'', ''Menu'', ''Search'', ''Apply'', ''More'', ''Click here'', ''Read more'']
        in (has_indicator \<or> has_subject) \<and> \<not> has_exclude \<and> \<not> isupper text)"

section \<open>Parsed pages\<close>

text \<open>
  The HTML parser is a collaborator; a parsed page is known through the answers to the
  queries the scrapers put to it. An element answers \<^verbatim>\<open>.name\<close>, \<^verbatim>\<open>.text\<close>,
  \<^verbatim>\<open>.get('href')\<close>, \<^verbatim>\<open>.find(tags)\<close> (text and href of the first descendant with one of
  the tags) and \<^verbatim>\<open>.find('a', href=True)\<close> (the href of the first link that has one).
\<close>

record element =
  elem_name :: string
  elem_text :: string
  elem_href :: "string option"
  elem_find :: "string list \<Rightarrow> (string \<times> string option) option"
  elem_find_a_href :: "string option"

record soup =
  find_all_div_class :: "string \<Rightarrow> element list"
  find_all_article_class :: "string \<Rightarrow> element list"
  find_all_a_degree :: "element list"
  find_all_a_href :: "element list"
  select :: "string \<Rightarrow> element list"

text \<open>\<^verbatim>\<open>d.get('href', '')\<close>.\<close>

definition href_or_empty :: "string option \<Rightarrow> string" where
  "href_or_empty h = (case h of None \<Rightarrow> [] | Some v \<Rightarrow> v)"

section \<open>Fetching a page\<close>

text \<open>
  The HTTP client, the browser driver and the parser are collaborators, given by what
  they return or raise for a URL: \<open>session_get\<close> is the final response or the exception
  of \<^verbatim>\<open>self.session.get(url, timeout=30)\<close>, \<open>driver_page_source\<close> is
  \<^verbatim>\<open>self.driver.get(url)\<close> followed by the fixed delay and \<^verbatim>\<open>self.driver.page_source\<close>,
  \<open>BeautifulSoup\<close> is the parser call.
\<close>

record response =
  status_code :: nat
  content :: string

record web =
  session_get :: "string \<Rightarrow> exn + response"
  driver_page_source :: "string \<Rightarrow> exn + string"
  BeautifulSoup :: "string \<Rightarrow> exn + soup"

text \<open>The state of a scraper object that \<^verbatim>\<open>fetch_page\<close> reads: \<^verbatim>\<open>self.use_selenium\<close> and
  whether \<^verbatim>\<open>self.driver\<close> is set.\<close>

record scraper =
  use_selenium :: bool
  driver :: bool

text \<open>
  \<^verbatim>\<open>Response.raise_for_status\<close> of the HTTP library raises for a client error
  (400 to 499) and for a server error (500 to 599), and for no other status.
\<close>

definition raise_for_status :: "response \<Rightarrow> exn + unit" where
  "raise_for_status r =
     (if 400 \<le> status_code r \<and> status_code r < 600 then Inl (HTTPError (status_code r))
      else Inr ())"

text \<open>
  The calls that \<^verbatim>\<open>fetch_page\<close> makes to its collaborators, in order: one entry for each
  time it calls \<^verbatim>\<open>self.session.get\<close> or \<^verbatim>\<open>self.driver.get\<close>. What the HTTP library
  sends over the network during one call of \<^verbatim>\<open>session.get\<close>, where it follows redirects,
  is not recorded.
\<close>

datatype call = SessionGet string | DriverGet string

text \<open>
  \<^verbatim>\<open>UniversityScraper.fetch_page\<close>: the body of the \<^verbatim>\<open>try\<close>, with either branch ending
  in an exception or a parsed page, and the calls it has made.
\<close>

definition fetch_page_try :: "web \<Rightarrow> scraper \<Rightarrow> string \<Rightarrow> (exn + soup) \<times> call list" where
  "fetch_page_try w self url =
     (if use_selenium self \<and> driver self then
        (case driver_page_source w url of
           Inl e \<Rightarrow> (Inl e, [DriverGet url])
         | Inr html \<Rightarrow> (BeautifulSoup w html, [DriverGet url]))
      else
        (case session_get w url of
           Inl e \<Rightarrow> (Inl e, [SessionGet url])
         | Inr response \<Rightarrow>
             (case raise_for_status response of
                Inl e \<Rightarrow> (Inl e, [SessionGet url])
              | Inr _ \<Rightarrow> (BeautifulSoup w (content response), [SessionGet url]))))"

text \<open>The handler \<^verbatim>\<open>except Exception\<close> logs and returns \<^verbatim>\<open>None\<close>.\<close>

definition fetch_page_io :: "web \<Rightarrow> scraper \<Rightarrow> string \<Rightarrow> soup option \<times> call list" where
  "fetch_page_io w self url =
     (case fetch_page_try w self url of
        (Inl e, made) \<Rightarrow> (None, made)
      | (Inr page, made) \<Rightarrow> (Some page, made))"

definition fetch_page :: "web \<Rightarrow> scraper \<Rightarrow> string \<Rightarrow> soup option" where
  "fetch_page w self url = fst (fetch_page_io w self url)"

section \<open>The scrapers of \<^verbatim>\<open>university_scraper.py\<close>\<close>

text \<open>
  In these \<^verbatim>\<open>get_courses\<close> each record built is appended to \<^verbatim>\<open>courses\<close>, and building a
  record reads the clock once, after the link has been joined; \<open>clock k\<close> is the \<open>k\<close>-th
  reading of \<^verbatim>\<open>datetime.now().microsecond\<close> during the call, so the record appended to a
  list of length \<open>k\<close> carries \<open>clock k\<close>. An exception of \<^verbatim>\<open>urljoin\<close> is caught by the
  handler of the parsing method, which returns \<^verbatim>\<open>None\<close>.
\<close>

subsection \<open>Bologna\<close>







subsection \<open>LSE, as first written\<close>

text \<open>\<^verbatim>\<open>LSEScraper._parse_course_item(item)\<close> of \<^verbatim>\<open>university_scraper.py\<close>.\<close>

definition LSE_parse_course_item ::
  "urljoin \<Rightarrow> nat \<Rightarrow> element \<Rightarrow> course option" where
  "LSE_parse_course_item urljoin microsecond item =
     (case elem_find item [''h2'', ''h3'', ''h4''] of
        None \<Rightarrow> None
      | Some (title_text, _) \<Rightarrow>
          let name = clean_text title_text;
              joined = (case elem_find item [''a''] of
                          None \<Rightarrow> Inr []
                        | Some (_, link_href) \<Rightarrow> urljoin LSE_base_url (href_or_empty link_href))
          in (case joined of
               Inl e \<Rightarrow> None
             | Inr url \<Rightarrow>
                 let (course_type, years) =
                       (if py_in ''BSc'' name \<or> py_in ''BA'' name then (''Bachelor's Degree'', 3)
                        else if py_in ''MSc'' name \<or> py_in ''MA'' name then (''Master's Degree'', 1)
                        else (''Other'', 1));
                     code = LSE_university_id @ ''_'' @ upper (take 4 name) @ ''_''
                              @ str_nat microsecond
                 in Some \<lparr>
                      degree_course_code = code,
                      degree_course_name = name,
                      degree_course_language = ''English'',
                      degree_course_period_years = years,
                      degree_course_type = course_type,
                      programme_access = ''Competitive selection'',
                      academic_year = ''2025/2026'',
                      course_area = LSE_determine_area name,
                      remote_mode = ''In-person'',
                      tuition_fees = LSE_tuition_fees,
                      website_university = LSE_base_url,
                      website_course = url,
                      university_id = LSE_university_id \<rparr>))"



section \<open>The patched LSE scraper of \<^verbatim>\<open>fix_lse_scraper.py\<close>\<close>

text \<open>
  The methods of the class as \<^verbatim>\<open>fix_lse_scraper.py\<close> writes it. They pass on
  \<open>determine_area\<close>, what \<^verbatim>\<open>self._determine_area\<close> resolves to, and thread the pair of the
  list \<^verbatim>\<open>courses\<close> and the number of clock readings made so far.
\<close>

text \<open>\<^verbatim>\<open>LSEScraper._extract_course_from_element\<close>: the loop over the heading tags keeps the
  first cleaned text that is a valid course name.\<close>

fun first_valid_name :: "element \<Rightarrow> string list \<Rightarrow> string option" where
  "first_valid_name elem [] = None"
| "first_valid_name elem (tag # tags) =
     (case elem_find elem [tag] of
        None \<Rightarrow> first_valid_name elem tags
      | Some (tag_text, _) \<Rightarrow>
          let name = clean_text tag_text
          in if is_valid_course_name name then Some name else first_valid_name elem tags)"

text \<open>The handler of the method turns an exception of the constructor into \<^verbatim>\<open>None\<close>.\<close>

definition extract_course_from_element ::
  "(string \<Rightarrow> string) option \<Rightarrow> urljoin \<Rightarrow> (nat \<Rightarrow> nat) \<Rightarrow> nat \<Rightarrow> element \<Rightarrow> course option \<times> nat" where
  "extract_course_from_element determine_area urljoin clock n elem =
     (case first_valid_name elem [''h3'', ''h2'', ''h4'', ''a''] of
        None \<Rightarrow> (None, n)
      | Some name \<Rightarrow>
          (case create_course_from_text determine_area urljoin clock n name
                  (href_or_empty (elem_find_a_href elem)) ''general'' of
             (Inl e, n') \<Rightarrow> (None, n')
           | (Inr course, n') \<Rightarrow> (course, n')))"

text \<open>\<^verbatim>\<open>LSEScraper._fallback_extraction\<close> and its catalogue. No handler surrounds the
  calls of the constructor: its exception leaves the method.\<close>

definition known_programmes :: "(string \<times> string) list" where
  "known_programmes =
     [(''BSc Economics'', ''undergraduate''),
      (''BSc Finance'', ''undergraduate''),
      (''BSc Accounting and Finance'', ''undergraduate''),
      (''BSc Management'', ''undergraduate''),
      (''BSc International Relations'', ''undergraduate''),
      (''BSc Government'', ''undergraduate''),
      (''BSc Social Policy'', ''undergraduate''),
      (''BSc Sociology'', ''undergraduate''),
      (''BSc Geography and Economics'', ''undergraduate''),
      (''BSc Mathematics and Economics'', ''undergraduate''),
      (''BSc Econometrics and Mathematical Economics'', ''undergraduate''),
      (''BSc Data Science'', ''undergraduate''),
      (''BA History'', ''undergraduate''),
      (''BA Anthropology and Law'', ''undergraduate''),
      (''LLB Laws'', ''undergraduate''),
      (''MSc Economics'', ''graduate''),
      (''MSc Finance'', ''graduate''),
      (''MSc Accounting and Finance'', ''graduate''),
      (''MSc Management and Strategy'', ''graduate''),
      (''MSc Data Science'', ''graduate''),
      (''MSc International Relations'', ''graduate''),
      (''MSc Public Policy'', ''graduate''),
      (''MSc Development Economics'', ''graduate''),
      (''MSc Risk and Finance'', ''graduate''),
      (''MSc Marketing'', ''graduate'')]"

fun fallback_loop ::
  "(string \<Rightarrow> string) option \<Rightarrow> urljoin \<Rightarrow> (nat \<Rightarrow> nat) \<Rightarrow> (string \<times> string) list \<Rightarrow>
   course list \<times> nat \<Rightarrow> exn + course list" where
  "fallback_loop determine_area urljoin clock [] (courses, n) = Inr courses"
| "fallback_loop determine_area urljoin clock ((programme_name, prog_type) # rest) (courses, n) =
     (case create_course_from_text determine_area urljoin clock n programme_name [] prog_type of
        (Inl e, n') \<Rightarrow> Inl e
      | (Inr None, n') \<Rightarrow> fallback_loop determine_area urljoin clock rest (courses, n')
      | (Inr (Some course), n') \<Rightarrow>
          fallback_loop determine_area urljoin clock rest (courses @ [course], n'))"

definition fallback_extraction ::
  "(string \<Rightarrow> string) option \<Rightarrow> urljoin \<Rightarrow> (nat \<Rightarrow> nat) \<Rightarrow> nat \<Rightarrow> exn + course list" where
  "fallback_extraction determine_area urljoin clock n =
     fallback_loop determine_area urljoin clock known_programmes ([], n)"

text \<open>The candidate pages of \<^verbatim>\<open>LSEScraper.get_courses\<close>.\<close>

record url_info =
  url :: string
  url_type :: string
  selectors :: "string list"

definition urls_to_try :: "url_info list" where
  "urls_to_try =
     [\<lparr> url = ''/study-at-lse/undergraduate/degree-programmes-2025'',
        url_type = ''undergraduate'',
        selectors = [''a[href*='' @ [CHR 0x22] @ ''/study-at-lse/undergraduate/offer-holder'' @ [CHR 0x22] @ '']'',
                     ''div.contentSectionCTA a'', ''a.cta__link''] \<rparr>,
      \<lparr> url = ''/study-at-lse/graduate/taught-programmes-2025'',
        url_type = ''graduate'',
        selectors = [''a[href*='' @ [CHR 0x22] @ ''/study-at-lse/graduate/degree-programmes'' @ [CHR 0x22] @ '']'',
                     ''div.contentSectionCTA a'', ''a.cta__link''] \<rparr>,
      \<lparr> url = ''/programmes/search-courses'',
        url_type = ''search'',
        selectors = [''div.programme-item'', ''article.course'', ''div.search-result''] \<rparr>]"

text \<open>
  The loop over \<^verbatim>\<open>soup.find_all('a', href=True)\<close> on a listing page. It runs inside the
  \<^verbatim>\<open>try\<close> of \<^verbatim>\<open>get_courses\<close>: an exception of the constructor ends the loop, and the
  records appended before it stay in \<^verbatim>\<open>courses\<close>.
\<close>

definition is_programme_link :: "string \<Rightarrow> string \<Rightarrow> bool" where
  "is_programme_link href text =
     ((py_in ''/offer-holder/'' href \<or> py_in ''/degree-programmes/'' href) \<and> length text > 10
      \<and> list_ex (\<lambda>indicator. py_in indicator text) [''BSc'', ''BA'', ''MSc'', ''MA'', ''LLB''])"

fun scan_programme_links ::
  "(string \<Rightarrow> string) option \<Rightarrow> urljoin \<Rightarrow> (nat \<Rightarrow> nat) \<Rightarrow> string \<Rightarrow> element list \<Rightarrow>
   course list \<times> nat \<Rightarrow> course list \<times> nat" where
  "scan_programme_links determine_area urljoin clock prog_type [] (courses, n) = (courses, n)"
| "scan_programme_links determine_area urljoin clock prog_type (link # links) (courses, n) =
     (let href = href_or_empty (elem_href link);
          text = clean_text (elem_text link)
      in if is_programme_link href text
         then (case create_course_from_text determine_area urljoin clock n text href prog_type of
                 (Inl e, n') \<Rightarrow> (courses, n')
               | (Inr None, n') \<Rightarrow>
                   scan_programme_links determine_area urljoin clock prog_type links (courses, n')
               | (Inr (Some course), n') \<Rightarrow>
                   scan_programme_links determine_area urljoin clock prog_type links
                     (courses @ [course], n'))
         else scan_programme_links determine_area urljoin clock prog_type links (courses, n))"

text \<open>The loop \<^verbatim>\<open>for elem in elements[:20]\<close>; the caller passes the slice.\<close>

fun scan_elements ::
  "(string \<Rightarrow> string) option \<Rightarrow> urljoin \<Rightarrow> (nat \<Rightarrow> nat) \<Rightarrow> element list \<Rightarrow>
   course list \<times> nat \<Rightarrow> course list \<times> nat" where
  "scan_elements determine_area urljoin clock [] (courses, n) = (courses, n)"
| "scan_elements determine_area urljoin clock (elem # elems) (courses, n) =
     (case extract_course_from_element determine_area urljoin clock n elem of
        (None, n') \<Rightarrow> scan_elements determine_area urljoin clock elems (courses, n')
      | (Some course, n') \<Rightarrow>
          scan_elements determine_area urljoin clock elems (courses @ [course], n'))"

text \<open>The loop over the selectors, left at the first selector after which \<^verbatim>\<open>courses\<close> is
  not empty.\<close>

fun try_selectors ::
  "(string \<Rightarrow> string) option \<Rightarrow> urljoin \<Rightarrow> (nat \<Rightarrow> nat) \<Rightarrow> soup \<Rightarrow> string list \<Rightarrow>
   course list \<times> nat \<Rightarrow> course list \<times> nat" where
  "try_selectors determine_area urljoin clock page [] state = state"
| "try_selectors determine_area urljoin clock page (selector # rest) state =
     (let state' = scan_elements determine_area urljoin clock (take 20 (select page selector)) state
      in if fst state' \<noteq> [] then state'
         else try_selectors determine_area urljoin clock page rest state')"

text \<open>
  The body of the \<^verbatim>\<open>try\<close> for one candidate page: an exception of the driver or of the
  parser leaves \<^verbatim>\<open>courses\<close> as it was.
\<close>

definition scan_url ::
  "(string \<Rightarrow> string) option \<Rightarrow> web \<Rightarrow> urljoin \<Rightarrow> (nat \<Rightarrow> nat) \<Rightarrow> url_info \<Rightarrow>
   course list \<times> nat \<Rightarrow> course list \<times> nat" where
  "scan_url determine_area w urljoin clock info state =
     (case driver_page_source w (join_path LSE_base_url (url info)) of
        Inl e \<Rightarrow> state
      | Inr html \<Rightarrow>
          (case BeautifulSoup w html of
             Inl e \<Rightarrow> state
           | Inr page \<Rightarrow>
               if url_type info \<in> set [''undergraduate'', ''graduate'']
               then scan_programme_links determine_area urljoin clock (url_type info)
                      (find_all_a_href page) state
               else try_selectors determine_area urljoin clock page (selectors info) state))"

text \<open>The loop over the candidate pages, left once five records are there.\<close>

fun try_urls ::
  "(string \<Rightarrow> string) option \<Rightarrow> web \<Rightarrow> scraper \<Rightarrow> urljoin \<Rightarrow> (nat \<Rightarrow> nat) \<Rightarrow> url_info list \<Rightarrow>
   course list \<times> nat \<Rightarrow> course list \<times> nat" where
  "try_urls determine_area w self urljoin clock [] state = state"
| "try_urls determine_area w self urljoin clock (info # rest) state =
     (let state' = (if use_selenium self \<and> driver self
                    then scan_url determine_area w urljoin clock info state else state)
      in if length (fst state') \<ge> 5 then state'
         else try_urls determine_area w self urljoin clock rest state')"

text \<open>The removal of duplicates: \<^verbatim>\<open>seen\<close> is the set of names kept so far.\<close>

fun unique_courses :: "course list \<Rightarrow> string set \<Rightarrow> course list" where
  "unique_courses [] seen = []"
| "unique_courses (course # rest) seen =
     (let name = degree_course_name course
      in if name \<noteq> [] \<and> name \<notin> seen then course # unique_courses rest (insert name seen)
         else unique_courses rest seen)"

text \<open>The records found on the live pages, before the fallback, with the number of clock
  readings made.\<close>

definition live_extraction ::
  "(string \<Rightarrow> string) option \<Rightarrow> web \<Rightarrow> scraper \<Rightarrow> urljoin \<Rightarrow> (nat \<Rightarrow> nat) \<Rightarrow> course list \<times> nat" where
  "live_extraction determine_area w self urljoin clock =
     try_urls determine_area w self urljoin clock urls_to_try ([], 0)"

text \<open>\<^verbatim>\<open>LSEScraper.get_courses\<close> of \<^verbatim>\<open>fix_lse_scraper.py\<close>: the list it returns, or the
  exception that leaves it.\<close>

definition LSE_get_courses ::
  "(string \<Rightarrow> string) option \<Rightarrow> web \<Rightarrow> scraper \<Rightarrow> urljoin \<Rightarrow> (nat \<Rightarrow> nat) \<Rightarrow> exn + course list" where
  "LSE_get_courses determine_area w self urljoin clock =
     (case live_extraction determine_area w self urljoin clock of
        (found, n) \<Rightarrow>
          (case (if found = [] then fallback_extraction determine_area urljoin clock n
                 else Inr found) of
             Inl e \<Rightarrow> Inl e
           | Inr courses \<Rightarrow> Inr (take 30 (unique_courses courses {}))))"

section \<open>The record store\<close>

text \<open>
  A table is the list of its rows in the order of a full scan; a row of \<^verbatim>\<open>universities\<close>
  or \<^verbatim>\<open>degree_courses\<close> is the saved dict with the column \<^verbatim>\<open>last_updated\<close>, which the
  schema fills with the timestamp of the statement. The two tables that no code writes
  hold rows of column names and values.
\<close>

datatype sql_value = Null | Integer int | Text string

type_synonym row = "(string \<times> sql_value) list"

record database =
  universities :: "(university \<times> string) list"
  degree_courses :: "(course \<times> string) list"
  learning_modules :: "row list"
  admission_requirements :: "row list"

text \<open>The store that \<^verbatim>\<open>init_database\<close> creates where no file exists: four empty tables.\<close>

definition init_database :: database where
  "init_database =
     \<lparr> universities = [], degree_courses = [], learning_modules = [], admission_requirements = [] \<rparr>"

text \<open>\<^verbatim>\<open>INSERT OR REPLACE\<close>: the rows with the key of the new row are deleted and the new
  row is inserted after the rows that are left.\<close>

definition insert_or_replace :: "('r \<Rightarrow> string) \<Rightarrow> 'r \<Rightarrow> 'r list \<Rightarrow> 'r list" where
  "insert_or_replace key new_row table = filter (\<lambda>old. key old \<noteq> key new_row) table @ [new_row]"

definition university_key :: "university \<times> string \<Rightarrow> string" where
  "university_key r = university.university_id (fst r)"

definition course_key :: "course \<times> string \<Rightarrow> string" where
  "course_key r = degree_course_code (fst r)"

text \<open>\<^verbatim>\<open>DatabaseManager.save_university\<close>, at the timestamp \<open>now\<close>.\<close>

definition save_university :: "string \<Rightarrow> university \<Rightarrow> database \<Rightarrow> database" where
  "save_university now university_data db =
     db\<lparr> universities := insert_or_replace university_key (university_data, now) (universities db) \<rparr>"

text \<open>\<^verbatim>\<open>DatabaseManager.save_courses\<close>: one statement for each course, then the commit.\<close>

definition save_courses :: "string \<Rightarrow> course list \<Rightarrow> database \<Rightarrow> database" where
  "save_courses now courses db =
     db\<lparr> degree_courses :=
           fold (\<lambda>course table. insert_or_replace course_key (course, now) table) courses
             (degree_courses db) \<rparr>"

subsection \<open>Export\<close>

text \<open>The document that \<^verbatim>\<open>json.dump\<close> writes and \<^verbatim>\<open>json.load\<close> reads back.\<close>

datatype json = JNull | JInt int | JStr string | JArr "json list" | JObj "(string \<times> json) list"

definition json_opt_str :: "string option \<Rightarrow> json" where
  "json_opt_str v = (case v of None \<Rightarrow> JNull | Some t \<Rightarrow> JStr t)"

definition json_opt_int :: "int option \<Rightarrow> json" where
  "json_opt_int v = (case v of None \<Rightarrow> JNull | Some i \<Rightarrow> JInt i)"

definition json_of_sql :: "sql_value \<Rightarrow> json" where
  "json_of_sql v = (case v of Null \<Rightarrow> JNull | Integer i \<Rightarrow> JInt i | Text t \<Rightarrow> JStr t)"

text \<open>\<^verbatim>\<open>dict(row)\<close> for a row of each table.\<close>

definition university_dict :: "university \<times> string \<Rightarrow> json" where
  "university_dict r =
     (case r of (u, last_updated) \<Rightarrow>
        JObj [(''university_id'', JStr (university.university_id u)),
              (''university_name'', JStr (university_name u)),
              (''university_city'', JStr (university_city u)),
              (''university_region'', JStr (university_region u)),
              (''university_website'', JStr (university_website u)),
              (''university_email'', json_opt_str (university_email u)),
              (''university_phone'', json_opt_str (university_phone u)),
              (''university_ranking_national'', json_opt_int (university_ranking_national u)),
              (''university_ranking_world'', json_opt_int (university_ranking_world u)),
              (''last_updated'', JStr last_updated)])"

definition course_dict :: "course \<times> string \<Rightarrow> json" where
  "course_dict r =
     (case r of (c, last_updated) \<Rightarrow>
        JObj [(''degree_course_code'', JStr (degree_course_code c)),
              (''degree_course_name'', JStr (degree_course_name c)),
              (''degree_course_language'', JStr (degree_course_language c)),
              (''degree_course_period_years'', JInt (degree_course_period_years c)),
              (''degree_course_type'', JStr (degree_course_type c)),
              (''programme_access'', JStr (programme_access c)),
              (''academic_year'', JStr (academic_year c)),
              (''course_area'', JStr (course_area c)),
              (''remote_mode'', JStr (remote_mode c)),
              (''tuition_fees'', JStr (tuition_fees c)),
              (''website_university'', JStr (website_university c)),
              (''website_course'', JStr (website_course c)),
              (''university_id'', JStr (course.university_id c)),
              (''last_updated'', JStr last_updated)])"

definition row_dict :: "row \<Rightarrow> json" where
  "row_dict r = JObj (map (\<lambda>(column, v). (column, json_of_sql v)) r)"

text \<open>\<^verbatim>\<open>DatabaseManager.export_to_json\<close>: the document written to the output file, with
  \<open>export_date\<close> the ISO text of the clock.\<close>

definition export_to_json :: "string \<Rightarrow> database \<Rightarrow> json" where
  "export_to_json export_date db =
     JObj [(''export_date'', JStr export_date),
           (''universities'', JArr (map university_dict (universities db))),
           (''courses'', JArr (map course_dict (degree_courses db))),
           (''modules'', JArr (map row_dict (learning_modules db))),
           (''requirements'', JArr (map row_dict (admission_requirements db)))]"

text \<open>Reading the reloaded document: \<^verbatim>\<open>data[key]\<close> and \<^verbatim>\<open>len\<close> of a list.\<close>

definition json_get :: "json \<Rightarrow> string \<Rightarrow> json option" where
  "json_get doc k = (case doc of JObj members \<Rightarrow> map_of members k | _ \<Rightarrow> None)"

definition json_len :: "json option \<Rightarrow> nat option" where
  "json_len v = (case v of Some (JArr items) \<Rightarrow> Some (length items) | _ \<Rightarrow> None)"

subsection \<open>Statistics\<close>

text \<open>\<^verbatim>\<open>dict(pairs)\<close>: a later pair with the same key replaces the earlier value.\<close>

definition py_dict :: "('k \<times> 'v) list \<Rightarrow> ('k \<rightharpoonup> 'v)" where
  "py_dict pairs = map_of (rev pairs)"

text \<open>
  The grouped queries. A group comes out once for each value of the grouping column,
  in the order of that column: \<^verbatim>\<open>GROUP BY u.university_id\<close> over the left join gives,
  for each institution, its name and the number of courses that refer to its id.
\<close>

definition by_university_rows :: "database \<Rightarrow> (string \<times> nat) list" where
  "by_university_rows db =
     map (\<lambda>u. (university_name (fst u),
               length (filter (\<lambda>c. course.university_id (fst c) = university.university_id (fst u))
                         (degree_courses db))))
       (sort_key university_key (universities db))"

definition by_area_rows :: "database \<Rightarrow> (string \<times> nat) list" where
  "by_area_rows db =
     map (\<lambda>area. (area, length (filter (\<lambda>c. course_area (fst c) = area) (degree_courses db))))
       (sort (remdups (map (\<lambda>c. course_area (fst c)) (degree_courses db))))"

record statistics =
  stat_universities :: nat
  stat_courses :: nat
  by_university :: "string \<rightharpoonup> nat"
  by_area :: "string \<rightharpoonup> nat"

text \<open>\<^verbatim>\<open>DatabaseManager.get_statistics\<close>; the keys \<^verbatim>\<open>'universities'\<close> and \<^verbatim>\<open>'courses'\<close> of
  the result are the fields \<open>stat_universities\<close> and \<open>stat_courses\<close>.\<close>

definition get_statistics :: "database \<Rightarrow> statistics" where
  "get_statistics db =
     \<lparr> stat_universities = length (universities db),
       stat_courses = length (degree_courses db),
       by_university = py_dict (by_university_rows db),
       by_area = py_dict (by_area_rows db) \<rparr>"

section \<open>The orchestrator\<close>









section \<open>Auxiliary notions for the proofs\<close>

text \<open>A text without any space character, such as a degree abbreviation.\<close>

definition ws_free :: "string \<Rightarrow> bool" where
  "ws_free s = (\<forall>c \<in> set s. \<not> is_space c)"

text \<open>The record that the constructor builds for the \<open>k\<close>-th clock reading and an entry of
  the catalogue, which has no link, when the method \<open>area_of\<close> is supplied.\<close>

definition catalogue_record ::
  "(string \<Rightarrow> string) \<Rightarrow> (nat \<Rightarrow> nat) \<Rightarrow> nat \<times> string \<times> string \<Rightarrow> course" where
  "catalogue_record area_of clock entry =
     (case entry of (k, name, prog_type) \<Rightarrow>
        LSE_course
          (''LSE_'' @ remove_spaces (upper (take 4 (clean_text name))) @ ''_'' @ str_nat (clock k))
          (clean_text name) (degree_level prog_type name) (area_of (clean_text name)) [])"

section \<open>Concrete inputs\<close>

text \<open>A stand-in for \<^verbatim>\<open>urljoin\<close> on the hrefs of the examples: the base followed by a
  site-relative path, and \<^verbatim>\<open>ValueError\<close> for the malformed reference \<^verbatim>\<open>//[\<close>.\<close>

definition site_urljoin :: urljoin where
  "site_urljoin base href =
     (if href = ''//['' then Inl (ValueError ''Invalid IPv6 URL'') else Inr (base @ href))"

text \<open>What the examples read from the result of the constructor: the exception, or the
  name, degree level and duration of the record.\<close>

definition level_of :: "(exn + course option) \<times> nat \<Rightarrow> exn + (string \<times> string \<times> int) option" where
  "level_of r =
     (case fst r of
        Inl e \<Rightarrow> Inl e
      | Inr None \<Rightarrow> Inr None
      | Inr (Some c) \<Rightarrow>
          Inr (Some (degree_course_name c, degree_course_type c, degree_course_period_years c)))"

text \<open>An institution and a course with the given identifiers and name.\<close>

definition example_university :: "string \<Rightarrow> string \<Rightarrow> university" where
  "example_university uid name =
     \<lparr> university.university_id = uid, university_name = name, university_city = ''City'',
       university_region = ''Region'', university_website = ''https://example.org'',
       university_email = None, university_phone = None,
       university_ranking_national = None, university_ranking_world = None \<rparr>"

definition example_course :: "string \<Rightarrow> string \<Rightarrow> string \<Rightarrow> course" where
  "example_course code name uid =
     \<lparr> degree_course_code = code, degree_course_name = name,
       degree_course_language = ''English'', degree_course_period_years = 3,
       degree_course_type = ''Bachelor's Degree'', programme_access = ''Open access'',
       academic_year = ''2025/2026'', course_area = ''Other'', remote_mode = ''In-person'',
       tuition_fees = ''0'', website_university = ''https://example.org'',
       website_course = ''https://example.org/course'', university_id = uid \<rparr>"

text \<open>The store after saving two institutions and three courses of the first.\<close>

definition example_store :: "university \<Rightarrow> university \<Rightarrow> database" where
  "example_store u1 u2 =
     save_courses ''2025-01-01 10:00:02''
       [example_course ''C1'' ''Course 1'' (university.university_id u1),
        example_course ''C2'' ''Course 2'' (university.university_id u1),
        example_course ''C3'' ''Course 3'' (university.university_id u1)]
       (save_university ''2025-01-01 10:00:01'' u2
          (save_university ''2025-01-01 10:00:00'' u1 init_database))"




text \<open>A page on which every query finds nothing, and a link element.\<close>

definition empty_soup :: soup where
  "empty_soup =
     \<lparr> find_all_div_class = (\<lambda>c. []), find_all_article_class = (\<lambda>c. []),
       find_all_a_degree = [], find_all_a_href = [], select = (\<lambda>s. []) \<rparr>"


text \<open>A network on which nothing answers, and one on which the server answers every
  request with the given status and an empty body.\<close>

definition offline_web :: web where
  "offline_web =
     \<lparr> session_get = (\<lambda>u. Inl ConnectionError),
       driver_page_source = (\<lambda>u. Inl WebDriverException),
       BeautifulSoup = (\<lambda>html. Inr empty_soup) \<rparr>"

definition status_web :: "nat \<Rightarrow> web" where
  "status_web n =
     \<lparr> session_get = (\<lambda>u. Inr \<lparr> status_code = n, content = [] \<rparr>),
       driver_page_source = (\<lambda>u. Inl WebDriverException),
       BeautifulSoup = (\<lambda>html. Inr empty_soup) \<rparr>"



text \<open>A scraper that fetches directly.\<close>

definition direct_scraper :: scraper where
  "direct_scraper = \<lparr> use_selenium = False, driver = False \<rparr>"

text \<open>A site whose pages render but hold no link and no element, and a scraper whose
  browser is running.\<close>

definition blank_web :: web where
  "blank_web =
     \<lparr> session_get = (\<lambda>u. Inr \<lparr> status_code = 200, content = ''<html></html>'' \<rparr>),
       driver_page_source = (\<lambda>u. Inr ''<html></html>''),
       BeautifulSoup = (\<lambda>html. Inr empty_soup) \<rparr>"

definition browser_scraper :: scraper where
  "browser_scraper = \<lparr> use_selenium = True, driver = True \<rparr>"

section \<open>Substrings\<close>

lemma py_in_sublist: "py_in needle hay = sublist needle hay"
  by (induction hay) (auto simp: sublist_Cons_right)

section \<open>Subject areas: the first matching area wins\<close>

lemma upper_append: "upper (xs @ ys) = upper xs @ upper ys"
  by (simp add: upper_def)

lemma length_upper: "length (upper s) = length s"
  by (simp add: upper_def)

lemma sublist_upper_iff: "sublist (upper keyword) (upper name) = ci_substring keyword name"
proof
  assume "sublist (upper keyword) (upper name)"
  then obtain ps ss where eq: "upper name = ps @ upper keyword @ ss"
    by (auto simp: sublist_def)
  define block where "block = take (length keyword) (drop (length ps) name)"
  have "upper block = take (length keyword) (drop (length ps) (upper name))"
    by (simp add: block_def upper_def take_map drop_map)
  also have "\<dots> = upper keyword"
    by (simp add: eq length_upper)
  finally have "upper block = upper keyword" .
  moreover have "sublist block name"
    unfolding block_def
    by (metis append_take_drop_id sublist_appendI)
  ultimately show "ci_substring keyword name"
    by (auto simp: ci_substring_def)
next
  assume "ci_substring keyword name"
  then obtain block ps ss where "name = ps @ block @ ss" "upper block = upper keyword"
    by (auto simp: ci_substring_def sublist_def)
  then show "sublist (upper keyword) (upper name)"
    by (metis upper_append sublist_appendI)
qed

lemma area_matches_code [code]: "area_matches name (area, kws) = keyword_hit (upper name) kws"
  by (simp add: keyword_hit_def area_matches_def list_ex_iff py_in_sublist sublist_upper_iff)

lemma scan_areas_none:
  "(\<forall>entry \<in> set areas. \<not> area_matches name entry) \<Longrightarrow> scan_areas areas (upper name) = ''Other''"
  by (induction areas) (auto simp: area_matches_code)

lemma scan_areas_first:
  "i < length areas \<Longrightarrow> area_matches name (areas ! i) \<Longrightarrow>
   (\<forall>j < i. \<not> area_matches name (areas ! j)) \<Longrightarrow>
   scan_areas areas (upper name) = fst (areas ! i)"
proof (induction areas arbitrary: i)
  case Nil
  then show ?case by simp
next
  case (Cons entry rest)
  obtain area kws where entry: "entry = (area, kws)" by (cases entry)
  show ?case
  proof (cases i)
    case 0
    with Cons.prems entry show ?thesis by (simp add: area_matches_code)
  next
    case (Suc k)
    with Cons.prems have "\<not> area_matches name entry" by auto
    moreover have "scan_areas rest (upper name) = fst (rest ! k)"
      using Cons.prems Suc by (intro Cons.IH) auto
    ultimately show ?thesis using entry Suc by (simp add: area_matches_code)
  qed
qed

text \<open>
  Claim C9. For every course name, \<^verbatim>\<open>_determine_area\<close> of the LSE scraper and of the
  Bologna scraper returns the first area of its keyword table, in the order the table is
  written, one of whose keywords is a case-insensitive substring of the name: an area
  that matches while no area before it matches is the result, whatever matches after
  it. When no keyword of any area matches, the result is \<^verbatim>\<open>'Other'\<close>.
\<close>

theorem determine_area_first_match_wins:
  "(\<forall>i < length LSE_areas. area_matches name (LSE_areas ! i) \<longrightarrow>
       (\<forall>j < i. \<not> area_matches name (LSE_areas ! j)) \<longrightarrow>
       LSE_determine_area name = fst (LSE_areas ! i))
   \<and> ((\<forall>entry \<in> set LSE_areas. \<not> area_matches name entry) \<longrightarrow> LSE_determine_area name = ''Other'')
   \<and> (\<forall>i < length Bologna_areas. area_matches name (Bologna_areas ! i) \<longrightarrow>
       (\<forall>j < i. \<not> area_matches name (Bologna_areas ! j)) \<longrightarrow>
       Bologna_determine_area name = fst (Bologna_areas ! i))
   \<and> ((\<forall>entry \<in> set Bologna_areas. \<not> area_matches name entry) \<longrightarrow>
       Bologna_determine_area name = ''Other'')"
proof -
  have first: "determine_area_in areas name = fst (areas ! i)"
    if "i < length areas" "area_matches name (areas ! i)"
       "\<forall>j < i. \<not> area_matches name (areas ! j)" for areas i
    using that by (simp add: determine_area_in_def scan_areas_first)
  have none: "determine_area_in areas name = ''Other''"
    if "\<forall>entry \<in> set areas. \<not> area_matches name entry" for areas
    using that by (simp add: determine_area_in_def scan_areas_none)
  show ?thesis
    unfolding LSE_determine_area_def Bologna_determine_area_def
    using first none by blast
qed

text \<open>
  The theorem at work: in the LSE table \<^verbatim>\<open>'Social Sciences'\<close> (entry 3) comes before
  \<^verbatim>\<open>'Data Science'\<close> (entry 5), and both match \<^verbatim>\<open>'MSc Social Data Science'\<close>; in the
  Bologna table \<^verbatim>\<open>'Economics'\<close> (entry 2) comes before \<^verbatim>\<open>'Law'\<close> (entry 5), and both
  match \<^verbatim>\<open>'Business Law'\<close>; no keyword of either table occurs in \<^verbatim>\<open>'MSc Marketing'\<close>.
\<close>

theorem determine_area_first_match_wins_witness:
  "area_matches ''MSc Social Data Science'' (LSE_areas ! 3)
   \<and> area_matches ''MSc Social Data Science'' (LSE_areas ! 5)
   \<and> LSE_determine_area ''MSc Social Data Science'' = ''Social Sciences''
   \<and> \<not> list_ex (area_matches ''MSc Marketing'') LSE_areas
   \<and> LSE_determine_area ''MSc Marketing'' = ''Other''
   \<and> area_matches ''Business Law'' (Bologna_areas ! 2)
   \<and> area_matches ''Business Law'' (Bologna_areas ! 5)
   \<and> Bologna_determine_area ''Business Law'' = ''Economics''
   \<and> \<not> list_ex (area_matches ''MSc Marketing'') Bologna_areas
   \<and> Bologna_determine_area ''MSc Marketing'' = ''Other''"
proof -
  let ?n = "''MSc Social Data Science''" and ?m = "''MSc Marketing''" and ?b = "''Business Law''"
  have l3: "area_matches ?n (LSE_areas ! 3)" and l5: "area_matches ?n (LSE_areas ! 5)"
    by code_simp+
  have "\<not> area_matches ?n (LSE_areas ! 0)" "\<not> area_matches ?n (LSE_areas ! Suc 0)"
       "\<not> area_matches ?n (LSE_areas ! Suc (Suc 0))"
    by code_simp+
  then have lbefore: "\<forall>j < 3. \<not> area_matches ?n (LSE_areas ! j)"
    by (auto simp: less_Suc_eq numeral_3_eq_3)
  have lnone: "\<forall>entry \<in> set LSE_areas. \<not> area_matches ?m entry"
    by code_simp
  have b2: "area_matches ?b (Bologna_areas ! 2)" and b5: "area_matches ?b (Bologna_areas ! 5)"
    by code_simp+
  have "\<not> area_matches ?b (Bologna_areas ! 0)" "\<not> area_matches ?b (Bologna_areas ! Suc 0)"
    by code_simp+
  then have bbefore: "\<forall>j < 2. \<not> area_matches ?b (Bologna_areas ! j)"
    by (auto simp: less_Suc_eq numeral_2_eq_2)
  have bnone: "\<forall>entry \<in> set Bologna_areas. \<not> area_matches ?m entry"
    by code_simp
  have len: "3 < length LSE_areas" "2 < length Bologna_areas"
    by (simp_all add: LSE_areas_def Bologna_areas_def)
  have f: "fst (LSE_areas ! 3) = ''Social Sciences''" "fst (Bologna_areas ! 2) = ''Economics''"
    by (simp_all add: LSE_areas_def Bologna_areas_def)
  from determine_area_first_match_wins [of ?n] len(1) l3 lbefore f(1)
  have r1: "LSE_determine_area ?n = ''Social Sciences''" by metis
  from determine_area_first_match_wins [of ?m] lnone bnone
  have r2: "LSE_determine_area ?m = ''Other''" and r4: "Bologna_determine_area ?m = ''Other''"
    by blast+
  from determine_area_first_match_wins [of ?b] len(2) b2 bbefore f(2)
  have r3: "Bologna_determine_area ?b = ''Economics''" by metis
  from l3 l5 r1 lnone r2 b2 b5 r3 bnone r4 show ?thesis
    unfolding list_ex_iff by blast
qed

section \<open>Cleaning a text keeps its space-free substrings\<close>

lemma sublist_across:
  assumes "x \<notin> set sub" "sub \<noteq> []"
  shows "sublist sub (a @ x # b) \<longleftrightarrow> sublist sub a \<or> sublist sub b"
proof
  assume "sublist sub (a @ x # b)"
  then consider "sublist sub a" | "sublist sub (x # b)"
    | xs1 xs2 where "sub = xs1 @ xs2" "suffix xs1 a" "prefix xs2 (x # b)"
    by (auto simp: sublist_append)
  then show "sublist sub a \<or> sublist sub b"
  proof cases
    case 1 then show ?thesis by simp
  next
    case 2
    then have "prefix sub (x # b) \<or> sublist sub b" by (simp add: sublist_Cons_right)
    moreover have "\<not> prefix sub (x # b)"
      using assms by (cases sub) auto
    ultimately show ?thesis by simp
  next
    case 3
    show ?thesis
    proof (cases xs2)
      case Nil
      with 3 have "suffix sub a" by simp
      then show ?thesis by (auto dest: suffix_imp_sublist)
    next
      case (Cons y ys)
      with 3 have "y = x" by simp
      with Cons 3 assms show ?thesis by auto
    qed
  qed
next
  assume "sublist sub a \<or> sublist sub b"
  then show "sublist sub (a @ x # b)"
    by (auto simp: sublist_append sublist_Cons_right)
qed

lemma split_acc_sublist:
  assumes "ws_free sub" "sub \<noteq> []"
  shows "(\<exists>w \<in> set (split_acc acc s). sublist sub w) \<longleftrightarrow> sublist sub (acc @ s)"
proof (induction s arbitrary: acc)
  case Nil
  from assms(2) show ?case by simp
next
  case (Cons c cs)
  show ?case
  proof (cases "is_space c")
    case True
    with assms have "c \<notin> set sub" by (auto simp: ws_free_def)
    then have "sublist sub (acc @ c # cs) \<longleftrightarrow> sublist sub acc \<or> sublist sub cs"
      using assms(2) by (rule sublist_across)
    moreover have "(\<exists>w \<in> set (split_acc [] cs). sublist sub w) \<longleftrightarrow> sublist sub cs"
      using Cons.IH [of "[]"] by simp
    ultimately show ?thesis using True assms(2) by auto
  next
    case False
    then show ?thesis using Cons.IH [of "acc @ [c]"] by simp
  qed
qed

lemma py_split_sublist:
  "ws_free sub \<Longrightarrow> sub \<noteq> [] \<Longrightarrow> (\<exists>w \<in> set (py_split s). sublist sub w) \<longleftrightarrow> sublist sub s"
  using split_acc_sublist [of sub "[]" s] by (simp add: py_split_def)

lemma join_sublist:
  assumes "ws_free sub" "sub \<noteq> []"
  shows "sublist sub (join '' '' ws) \<longleftrightarrow> (\<exists>w \<in> set ws. sublist sub w)"
proof (induction "'' ''" ws rule: join.induct)
  case 1
  from assms(2) show ?case by simp
next
  case (2 w)
  show ?case by simp
next
  case (3 w v ws)
  have "CHR '' '' \<notin> set sub"
    using assms(1) by (auto simp: ws_free_def is_space_def)
  then have "sublist sub (w @ CHR '' '' # join '' '' (v # ws))
      \<longleftrightarrow> sublist sub w \<or> sublist sub (join '' '' (v # ws))"
    using assms(2) by (rule sublist_across)
  with 3 show ?case by simp
qed

lemma dropWhile_space_sublist:
  assumes "ws_free sub" "sub \<noteq> []"
  shows "sublist sub (dropWhile is_space s) \<longleftrightarrow> sublist sub s"
proof (induction s)
  case Nil
  show ?case by simp
next
  case (Cons c cs)
  show ?case
  proof (cases "is_space c")
    case True
    with assms have "\<not> prefix sub (c # cs)"
      by (cases sub) (auto simp: ws_free_def)
    with True Cons show ?thesis by (simp add: sublist_Cons_right)
  next
    case False
    then show ?thesis by simp
  qed
qed

lemma ws_free_rev: "ws_free (rev s) = ws_free s"
  by (simp add: ws_free_def)

lemma strip_sublist:
  assumes "ws_free sub" "sub \<noteq> []"
  shows "sublist sub (strip s) \<longleftrightarrow> sublist sub s"
proof -
  have "sublist sub (strip s) \<longleftrightarrow> sublist (rev sub) (dropWhile is_space (rev (dropWhile is_space s)))"
    by (simp add: strip_def sublist_rev_right)
  also have "\<dots> \<longleftrightarrow> sublist (rev sub) (rev (dropWhile is_space s))"
    using assms by (intro dropWhile_space_sublist) (simp_all add: ws_free_rev)
  also have "\<dots> \<longleftrightarrow> sublist sub (dropWhile is_space s)"
    by simp
  also have "\<dots> \<longleftrightarrow> sublist sub s"
    using assms by (rule dropWhile_space_sublist)
  finally show ?thesis .
qed

lemma clean_text_py_in:
  assumes "ws_free sub" "sub \<noteq> []"
  shows "py_in sub (clean_text text) = py_in sub text"
proof (cases "text = []")
  case True
  then show ?thesis by (simp add: clean_text_def)
next
  case False
  then have "py_in sub (clean_text text) \<longleftrightarrow> sublist sub (join '' '' (py_split (strip text)))"
    by (simp add: clean_text_def py_in_sublist)
  also have "\<dots> \<longleftrightarrow> (\<exists>w \<in> set (py_split (strip text)). sublist sub w)"
    using assms by (rule join_sublist)
  also have "\<dots> \<longleftrightarrow> sublist sub (strip text)"
    using assms by (rule py_split_sublist)
  also have "\<dots> \<longleftrightarrow> sublist sub text"
    using assms by (rule strip_sublist)
  finally show ?thesis by (simp add: py_in_sublist)
qed

section \<open>The course constructor of the patched LSE scraper\<close>

lemma ws_free_abbrevs:
  "ws_free ''MSc''" "ws_free ''MA''" "ws_free ''MRes''" "ws_free ''MPhil''" "ws_free ''LLM''"
  "ws_free ''PhD''"
  by (simp_all add: ws_free_def is_space_def)

lemma degree_level_clean:
  "degree_level prog_type (clean_text text) = degree_level prog_type text"
  by (simp add: degree_level_def clean_text_py_in ws_free_abbrevs)

lemma degree_level_cases:
  "degree_level prog_type text \<in>
     {(''Master's Degree'', 1), (''Doctoral Degree'', 4), (''Bachelor's Degree'', 3)}"
  by (simp add: degree_level_def)

text \<open>The result of the constructor, case by case.\<close>

lemma create_empty:
  "create_course_from_text determine_area urljoin clock n [] link prog_type = (Inr None, n)"
  by (simp add: create_course_from_text_def)

lemma create_join_fails:
  "text \<noteq> [] \<Longrightarrow> joined_link urljoin link = Inl e \<Longrightarrow>
   create_course_from_text determine_area urljoin clock n text link prog_type = (Inl e, n)"
  by (simp add: create_course_from_text_def)

lemma create_no_method:
  "text \<noteq> [] \<Longrightarrow> joined_link urljoin link = Inr l \<Longrightarrow>
   create_course_from_text None urljoin clock n text link prog_type
     = (Inl (AttributeError ''_determine_area''), Suc n)"
  by (simp add: create_course_from_text_def Let_def)

lemma create_with_method:
  "text \<noteq> [] \<Longrightarrow> joined_link urljoin link = Inr l \<Longrightarrow>
   create_course_from_text (Some area_of) urljoin clock n text link prog_type
     = (Inr (Some (LSE_course
          (''LSE_'' @ remove_spaces (upper (take 4 (clean_text text))) @ ''_'' @ str_nat (clock n))
          (clean_text text) (degree_level prog_type text) (area_of (clean_text text)) l)), Suc n)"
  by (simp add: create_course_from_text_def Let_def degree_level_clean)

text \<open>What a returned record tells about the call.\<close>

lemma create_course_from_text_record:
  assumes "create_course_from_text determine_area urljoin clock n text link prog_type
             = (Inr (Some c), n')"
  shows "\<exists>area_of l. text \<noteq> [] \<and> determine_area = Some area_of \<and> joined_link urljoin link = Inr l
     \<and> n' = Suc n
     \<and> c = LSE_course
          (''LSE_'' @ remove_spaces (upper (take 4 (clean_text text))) @ ''_'' @ str_nat (clock n))
          (clean_text text) (degree_level prog_type text) (area_of (clean_text text)) l"
proof -
  from assms have ne: "text \<noteq> []"
    by (auto simp: create_empty)
  from assms ne obtain l where l: "joined_link urljoin link = Inr l"
    by (cases "joined_link urljoin link") (auto simp: create_join_fails)
  from assms ne l obtain area_of where a: "determine_area = Some area_of"
    by (cases determine_area) (auto simp: create_no_method)
  from assms create_with_method [OF ne l, of area_of clock n prog_type] a
  show ?thesis using ne l by auto
qed

text \<open>Without the method no record is ever returned.\<close>

lemma create_without_method:
  "fst (create_course_from_text None urljoin clock n text link prog_type) \<noteq> Inr (Some c)"
proof
  assume "fst (create_course_from_text None urljoin clock n text link prog_type) = Inr (Some c)"
  then obtain n' where
    "create_course_from_text None urljoin clock n text link prog_type = (Inr (Some c), n')"
    by (cases "create_course_from_text None urljoin clock n text link prog_type") auto
  from create_course_from_text_record [OF this] show False by auto
qed





text \<open>The parser of the LSE scraper as first written has no doctoral branch: a title
  without \<^verbatim>\<open>BSc\<close>, \<^verbatim>\<open>BA\<close>, \<^verbatim>\<open>MSc\<close> or \<^verbatim>\<open>MA\<close> is of type \<^verbatim>\<open>"Other"\<close>.\<close>

lemma LSE_parse_course_item_PhD:
  "map_option (\<lambda>c. (degree_course_name c, degree_course_type c, degree_course_period_years c))
     (LSE_parse_course_item site_urljoin 7
        \<lparr> elem_name = ''div'', elem_text = ''PhD Economics'', elem_href = None,
          elem_find = (\<lambda>tags. Some (''PhD Economics'', None)), elem_find_a_href = None \<rparr>)
   = Some (''PhD Economics'', ''Other'', 1)"
  by code_simp

text \<open>
  Claim C10 has \<^verbatim>\<open>_create_course_from_text\<close> return a well-formed record for every
  non-empty text. For an object of the class as \<^verbatim>\<open>fix_lse_scraper.py\<close> writes it the
  call returns no record: with no link it raises \<^verbatim>\<open>AttributeError\<close> for every non-empty
  text, and with any link it ends in an exception, that one or the one of \<^verbatim>\<open>urljoin\<close>.
  So it does for \<^verbatim>\<open>'BSc Economics'\<close> with no link and the tag \<^verbatim>\<open>'undergraduate'\<close>.
\<close>

theorem create_course_raises_without_method:
  "fst (create_course_from_text None urljoin clock n (ch # rest) [] prog_type)
     = Inl (AttributeError ''_determine_area'')
   \<and> isl (fst (create_course_from_text None urljoin clock n (ch # rest) link prog_type))
   \<and> level_of (create_course_from_text None site_urljoin (\<lambda>k. k) 0
        ''BSc Economics'' [] ''undergraduate'') = Inl (AttributeError ''_determine_area'')"
proof (intro conjI)
  have e: "joined_link urljoin [] = Inr []"
    by (simp add: joined_link_def)
  show "fst (create_course_from_text None urljoin clock n (ch # rest) [] prog_type)
     = Inl (AttributeError ''_determine_area'')"
    using create_no_method [OF _ e, of "ch # rest" clock n prog_type] by simp
  show "isl (fst (create_course_from_text None urljoin clock n (ch # rest) link prog_type))"
  proof (cases "joined_link urljoin link")
    case (Inl e)
    with create_join_fails [of "ch # rest" urljoin link e None clock n prog_type]
    show ?thesis by simp
  next
    case (Inr l)
    with create_no_method [of "ch # rest" urljoin link l clock n prog_type]
    show ?thesis by simp
  qed
  have f: "joined_link site_urljoin [] = Inr []"
    by (simp add: joined_link_def)
  show "level_of (create_course_from_text None site_urljoin (\<lambda>k. k) 0
        ''BSc Economics'' [] ''undergraduate'') = Inl (AttributeError ''_determine_area'')"
    using create_no_method [OF _ f, of "''BSc Economics''" "\<lambda>k. k" 0 "''undergraduate''"]
    by (simp add: level_of_def)
qed

text \<open>
  With the method supplied, and a link for which \<^verbatim>\<open>urljoin\<close> returns a non-empty URL, the
  record has the shape the method is written for: one of the three degree levels with its
  duration, the identifier \<^verbatim>\<open>"LSE"\<close>, and a non-empty course URL.
\<close>

lemma create_course_well_formed_with_method:
  assumes "text \<noteq> []"
    and "joined_link urljoin link = Inr l"
    and "link \<noteq> [] \<longrightarrow> l \<noteq> []"
  shows "\<exists>c. create_course_from_text (Some area_of) urljoin clock n text link prog_type
             = (Inr (Some c), Suc n)
     \<and> (degree_course_type c, degree_course_period_years c)
         \<in> {(''Bachelor's Degree'', 3), (''Master's Degree'', 1), (''Doctoral Degree'', 4)}
     \<and> course.university_id c = ''LSE''
     \<and> website_course c \<noteq> []
     \<and> website_course c = (if link = [] then LSE_base_url else l)"
proof -
  let ?c = "LSE_course
      (''LSE_'' @ remove_spaces (upper (take 4 (clean_text text))) @ ''_'' @ str_nat (clock n))
      (clean_text text) (degree_level prog_type text) (area_of (clean_text text)) l"
  from assms(2) have empty: "link = [] \<Longrightarrow> l = []"
    by (simp add: joined_link_def)
  have "(degree_course_type ?c, degree_course_period_years ?c) = degree_level prog_type text"
    by (simp add: LSE_course_def)
  with degree_level_cases [of prog_type "text"]
  have "(degree_course_type ?c, degree_course_period_years ?c)
         \<in> {(''Bachelor's Degree'', 3), (''Master's Degree'', 1), (''Doctoral Degree'', 4)}"
    by auto
  moreover have "course.university_id ?c = ''LSE''"
    by (simp add: LSE_course_def LSE_university_id_def)
  moreover have "website_course ?c = (if link = [] then LSE_base_url else l)"
    using assms(3) empty by (auto simp: LSE_course_def)
  moreover from this assms(3) have "website_course ?c \<noteq> []"
    by (auto simp: LSE_base_url_def)
  ultimately show ?thesis
    using create_with_method [OF assms(1,2), of area_of clock n prog_type] by blast
qed

text \<open>An exception of \<^verbatim>\<open>urljoin\<close> leaves the constructor, whether the method is there or
  not; a link that starts with \<^verbatim>\<open>http\<close> is kept as it is.\<close>

lemma create_course_urljoin_raises:
  "level_of (create_course_from_text (Some LSE_determine_area) site_urljoin (\<lambda>k. k) 0
      ''BSc Economics'' ''//['' ''undergraduate'') = Inl (ValueError ''Invalid IPv6 URL'')"
  by code_simp

section \<open>The record store\<close>


















text \<open>
  Claim C7. For every store, the document written by \<^verbatim>\<open>export_to_json\<close> and read back
  has a list under \<^verbatim>\<open>universities\<close> and a list under \<^verbatim>\<open>courses\<close> whose lengths are the
  counts of institutions and of programmes that \<^verbatim>\<open>get_statistics\<close> reports for that
  store.
\<close>

theorem export_counts_match_statistics:
  "json_len (json_get (export_to_json export_date db) ''universities'')
     = Some (stat_universities (get_statistics db))
   \<and> json_len (json_get (export_to_json export_date db) ''courses'')
     = Some (stat_courses (get_statistics db))"
  by (simp add: export_to_json_def json_get_def json_len_def get_statistics_def)

section \<open>Statistics\<close>

lemma three_courses_table:
  assumes "distinct (map degree_course_code [c1, c2, c3])"
  shows "degree_courses (save_courses now [c1, c2, c3] db) =
     filter (\<lambda>r. course_key r \<notin> {degree_course_code c1, degree_course_code c2, degree_course_code c3})
       (degree_courses db) @ [(c1, now), (c2, now), (c3, now)]"
  using assms
  by (auto simp: save_courses_def insert_or_replace_def course_key_def intro: filter_cong)

text \<open>
  Claim C6, as the code has it. In a new store, after saving two institutions with
  different identifiers and different display names, and three programmes with
  pairwise different codes that all refer to the first institution,
  \<^verbatim>\<open>get_statistics\<close> reports 2 institutions and 3 programmes, and its grouping by
  institution, which is keyed by the display name, maps the name of the first
  institution to 3 and the name of the second to 0.
\<close>

theorem statistics_of_two_institutions:
  assumes "university.university_id u1 \<noteq> university.university_id u2"
    and "university_name u1 \<noteq> university_name u2"
    and "distinct (map degree_course_code [c1, c2, c3])"
    and "list_all (\<lambda>c. course.university_id c = university.university_id u1) [c1, c2, c3]"
  shows "stat_universities (get_statistics
           (save_courses t3 [c1, c2, c3] (save_university t2 u2 (save_university t1 u1 init_database)))) = 2
    \<and> stat_courses (get_statistics
           (save_courses t3 [c1, c2, c3] (save_university t2 u2 (save_university t1 u1 init_database)))) = 3
    \<and> by_university (get_statistics
           (save_courses t3 [c1, c2, c3] (save_university t2 u2 (save_university t1 u1 init_database))))
         (university_name u1) = Some 3
    \<and> by_university (get_statistics
           (save_courses t3 [c1, c2, c3] (save_university t2 u2 (save_university t1 u1 init_database))))
         (university_name u2) = Some 0"
proof -
  let ?saved = "save_university t2 u2 (save_university t1 u1 init_database)"
  let ?store = "save_courses t3 [c1, c2, c3] ?saved"
  have unis0: "universities ?saved = [(u1, t1), (u2, t2)]"
    using assms(1)
    by (simp add: save_university_def insert_or_replace_def init_database_def university_key_def)
  have unis: "universities ?store = [(u1, t1), (u2, t2)]"
    using unis0 by (simp add: save_courses_def)
  have "degree_courses ?saved = []"
    by (simp add: save_university_def init_database_def)
  with three_courses_table [OF assms(3), of t3 ?saved]
  have courses: "degree_courses ?store = [(c1, t3), (c2, t3), (c3, t3)]"
    by simp
  have rows: "by_university_rows ?store =
      (if university.university_id u1 \<le> university.university_id u2
       then [(university_name u1, 3), (university_name u2, 0)]
       else [(university_name u2, 0), (university_name u1, 3)])"
    using assms(1,4)
    by (simp add: by_university_rows_def unis courses university_key_def del: sort_key_simps)
       (simp add: university_key_def)
  have "py_dict (by_university_rows ?store) (university_name u1) = Some 3
      \<and> py_dict (by_university_rows ?store) (university_name u2) = Some 0"
    using assms(2) by (simp add: rows py_dict_def)
  then show ?thesis
    by (simp add: get_statistics_def unis courses)
qed

theorem statistics_of_two_institutions_witness:
  "stat_universities (get_statistics
      (example_store (example_university ''U1'' ''First'') (example_university ''U2'' ''Second''))) = 2
   \<and> stat_courses (get_statistics
      (example_store (example_university ''U1'' ''First'') (example_university ''U2'' ''Second''))) = 3
   \<and> by_university (get_statistics
      (example_store (example_university ''U1'' ''First'') (example_university ''U2'' ''Second'')))
        ''First'' = Some 3
   \<and> by_university (get_statistics
      (example_store (example_university ''U1'' ''First'') (example_university ''U2'' ''Second'')))
        ''Second'' = Some 0"
  using statistics_of_two_institutions
    [of "example_university ''U1'' ''First''" "example_university ''U2'' ''Second''"
        "example_course ''C1'' ''Course 1'' ''U1''" "example_course ''C2'' ''Course 2'' ''U1''"
        "example_course ''C3'' ''Course 3'' ''U1''"
        "''2025-01-01 10:00:02''" "''2025-01-01 10:00:01''" "''2025-01-01 10:00:00''"]
  by (simp add: example_store_def example_university_def example_course_def)

text \<open>
  Claim C6 as stated fails for two institutions that share a display name: the
  grouping has one entry for the name, taken from the row that the query returns last.
  With the identifiers \<^verbatim>\<open>U1\<close> and \<^verbatim>\<open>U2\<close> the institution with three programmes is mapped
  to 0; with \<^verbatim>\<open>B\<close> and \<^verbatim>\<open>A\<close> the institution without programmes is mapped to 3.
\<close>

theorem statistics_of_two_institutions_counterexample:
  "stat_universities (get_statistics
      (example_store (example_university ''U1'' ''Same'') (example_university ''U2'' ''Same''))) = 2
   \<and> stat_courses (get_statistics
      (example_store (example_university ''U1'' ''Same'') (example_university ''U2'' ''Same''))) = 3
   \<and> by_university (get_statistics
      (example_store (example_university ''U1'' ''Same'') (example_university ''U2'' ''Same'')))
        ''Same'' = Some 0
   \<and> by_university (get_statistics
      (example_store (example_university ''B'' ''Same'') (example_university ''A'' ''Same'')))
        ''Same'' = Some 3"
  by code_simp

section \<open>The orchestrator\<close>







section \<open>Fetching a page\<close>

lemma fetch_page_io_calls:
  "snd (fetch_page_io w self address) =
     (if use_selenium self \<and> driver self then [DriverGet address] else [SessionGet address])"
  by (auto simp: fetch_page_io_def fetch_page_try_def split: sum.splits prod.splits)

text \<open>
  Claim C8, as the code has it. On the direct branch of \<^verbatim>\<open>fetch_page\<close>, for every URL:
  when \<^verbatim>\<open>session.get\<close> ends in a network error, and when the final answer has a status
  from 400 to 599, the method returns \<^verbatim>\<open>None\<close>; no exception leaves the method, whose
  result is always a page or \<^verbatim>\<open>None\<close>; and there is no retry: the method calls
  \<^verbatim>\<open>session.get\<close> once for the URL and not again after the failure. An answer with any
  other status is handled like a success: its body is parsed, and the result is the page,
  or \<^verbatim>\<open>None\<close> when the parser raises.
\<close>

theorem fetch_page_direct_failure:
  assumes "\<not> (use_selenium self \<and> driver self)"
  shows "(\<forall>e. session_get w address = Inl e \<longrightarrow> fetch_page_io w self address = (None, [SessionGet address]))
    \<and> (\<forall>r. session_get w address = Inr r \<and> 400 \<le> status_code r \<and> status_code r < 600 \<longrightarrow>
          fetch_page_io w self address = (None, [SessionGet address]))
    \<and> (\<forall>r. session_get w address = Inr r \<and> \<not> (400 \<le> status_code r \<and> status_code r < 600) \<longrightarrow>
          fetch_page_io w self address =
            ((case BeautifulSoup w (content r) of Inl e \<Rightarrow> None | Inr page \<Rightarrow> Some page),
             [SessionGet address]))"
  using assms
  by (auto simp: fetch_page_io_def fetch_page_try_def raise_for_status_def
      split: sum.splits prod.splits)

theorem fetch_page_direct_failure_witness:
  "\<not> (use_selenium direct_scraper \<and> driver direct_scraper)
   \<and> session_get offline_web ''https://www.unibo.it/en/study'' = Inl ConnectionError
   \<and> fetch_page_io offline_web direct_scraper ''https://www.unibo.it/en/study''
       = (None, [SessionGet ''https://www.unibo.it/en/study''])
   \<and> session_get (status_web 404) ''https://www.unibo.it/en/study''
       = Inr \<lparr> status_code = 404, content = [] \<rparr>
   \<and> fetch_page_io (status_web 404) direct_scraper ''https://www.unibo.it/en/study''
       = (None, [SessionGet ''https://www.unibo.it/en/study''])
   \<and> session_get (status_web 300) ''https://www.unibo.it/en/study''
       = Inr \<lparr> status_code = 300, content = [] \<rparr>
   \<and> fetch_page_io (status_web 300) direct_scraper ''https://www.unibo.it/en/study''
       = (Some empty_soup, [SessionGet ''https://www.unibo.it/en/study''])"
proof -
  have d: "\<not> (use_selenium direct_scraper \<and> driver direct_scraper)"
    by (simp add: direct_scraper_def)
  have o: "session_get offline_web ''https://www.unibo.it/en/study'' = Inl ConnectionError"
    by (simp add: offline_web_def)
  have s: "session_get (status_web 404) ''https://www.unibo.it/en/study''
       = Inr \<lparr> status_code = 404, content = [] \<rparr>"
    by (simp add: status_web_def)
  have t: "session_get (status_web 300) ''https://www.unibo.it/en/study''
       = Inr \<lparr> status_code = 300, content = [] \<rparr>"
    by (simp add: status_web_def)
  have b: "BeautifulSoup (status_web 300) [] = Inr empty_soup"
    by (simp add: status_web_def)
  from fetch_page_direct_failure [OF d, of offline_web "''https://www.unibo.it/en/study''"] o
  have 1: "fetch_page_io offline_web direct_scraper ''https://www.unibo.it/en/study''
       = (None, [SessionGet ''https://www.unibo.it/en/study''])"
    by blast
  from fetch_page_direct_failure [OF d, of "status_web 404" "''https://www.unibo.it/en/study''"] s
  have 2: "fetch_page_io (status_web 404) direct_scraper ''https://www.unibo.it/en/study''
       = (None, [SessionGet ''https://www.unibo.it/en/study''])"
    by simp
  from fetch_page_direct_failure [OF d, of "status_web 300" "''https://www.unibo.it/en/study''"] t b
  have 3: "fetch_page_io (status_web 300) direct_scraper ''https://www.unibo.it/en/study''
       = (Some empty_soup, [SessionGet ''https://www.unibo.it/en/study''])"
    by simp
  from d o 1 s 2 t 3 show ?thesis by blast
qed

text \<open>
  Claim C8 as stated covers every status outside 200 to 299. An answer with status 304
  is no error for \<^verbatim>\<open>raise_for_status\<close>: its body is parsed and the page is returned.
\<close>

theorem fetch_page_direct_failure_counterexample:
  "session_get (status_web 304) ''https://www.unibo.it/en/study''
     = Inr \<lparr> status_code = 304, content = [] \<rparr>
   \<and> fetch_page (status_web 304) direct_scraper ''https://www.unibo.it/en/study'' = Some empty_soup"
  by (simp add: fetch_page_def fetch_page_io_def fetch_page_try_def raise_for_status_def
      status_web_def direct_scraper_def)

section \<open>Deduplication and cap\<close>


lemma unique_courses_keeps:
  "distinct (map degree_course_name courses) \<Longrightarrow> [] \<notin> set (map degree_course_name courses) \<Longrightarrow>
   set (map degree_course_name courses) \<inter> seen = {} \<Longrightarrow> unique_courses courses seen = courses"
proof (induction courses arbitrary: seen)
  case Nil
  show ?case by simp
next
  case (Cons c cs)
  from Cons.prems have "unique_courses cs (insert (degree_course_name c) seen) = cs"
    by (intro Cons.IH) auto
  with Cons.prems show ?case by (auto simp: Let_def)
qed








section \<open>The fallback catalogue\<close>

text \<open>An object without the method builds no record: the live extraction finds nothing,
  whatever the pages hold.\<close>

lemma extract_without_method:
  "fst (extract_course_from_element None urljoin clock n elem) = None"
proof (cases "first_valid_name elem [''h3'', ''h2'', ''h4'', ''a'']")
  case None
  then show ?thesis by (simp add: extract_course_from_element_def)
next
  case (Some name)
  let ?r = "create_course_from_text None urljoin clock n name
              (href_or_empty (elem_find_a_href elem)) ''general''"
  obtain res n' where r: "?r = (res, n')" by (cases ?r)
  with create_without_method [of urljoin clock n name "href_or_empty (elem_find_a_href elem)" "''general''"]
  have "\<And>c. res \<noteq> Inr (Some c)" by simp
  with Some r show ?thesis
    by (cases res) (auto simp: extract_course_from_element_def split: option.splits)
qed

lemma scan_programme_links_without_method:
  "fst (scan_programme_links None urljoin clock prog_type links (courses, n)) = courses"
proof (induction links arbitrary: n)
  case Nil
  show ?case by simp
next
  case (Cons link links)
  let ?href = "href_or_empty (elem_href link)" and ?text = "clean_text (elem_text link)"
  let ?r = "create_course_from_text None urljoin clock n ?text ?href prog_type"
  obtain res n' where r: "?r = (res, n')" by (cases ?r)
  with create_without_method [of urljoin clock n ?text ?href prog_type]
  have no: "\<And>c. res \<noteq> Inr (Some c)" by simp
  show ?case
  proof (cases "is_programme_link ?href ?text")
    case False
    with Cons.IH [of n] show ?thesis by (simp add: Let_def)
  next
    case True
    with r no Cons.IH [of n'] show ?thesis
      by (cases res) (auto simp: Let_def split: option.splits)
  qed
qed

lemma scan_elements_without_method:
  "fst (scan_elements None urljoin clock elems (courses, n)) = courses"
proof (induction elems arbitrary: n)
  case Nil
  show ?case by simp
next
  case (Cons elem elems)
  obtain r n' where e: "extract_course_from_element None urljoin clock n elem = (r, n')"
    by (cases "extract_course_from_element None urljoin clock n elem")
  with extract_without_method [of urljoin clock n elem] have "r = None" by simp
  with e Cons.IH [of n'] show ?case by simp
qed

lemma try_selectors_without_method:
  "fst (try_selectors None urljoin clock page sels ([], n)) = []"
proof (induction sels arbitrary: n)
  case Nil
  show ?case by simp
next
  case (Cons selector rest)
  let ?s = "scan_elements None urljoin clock (take 20 (select page selector)) ([], n)"
  obtain cs n' where s: "?s = (cs, n')" by (cases ?s)
  with scan_elements_without_method [of urljoin clock "take 20 (select page selector)" "[]" n]
  have "cs = []" by simp
  with s Cons.IH [of n'] show ?case by (simp add: Let_def)
qed

lemma scan_url_without_method:
  "fst (scan_url None w urljoin clock info ([], n)) = []"
  by (simp add: scan_url_def scan_programme_links_without_method try_selectors_without_method
      split: sum.splits)

lemma try_urls_without_method:
  "fst (try_urls None w self urljoin clock infos ([], n)) = []"
proof (induction infos arbitrary: n)
  case Nil
  show ?case by simp
next
  case (Cons info rest)
  show ?case
  proof (cases "use_selenium self \<and> driver self")
    case False
    with Cons.IH [of n] show ?thesis by (auto simp: Let_def)
  next
    case True
    let ?s = "scan_url None w urljoin clock info ([], n)"
    obtain cs n' where s: "?s = (cs, n')" by (cases ?s)
    with scan_url_without_method [of w urljoin clock info n] have "cs = []" by simp
    with s True Cons.IH [of n'] show ?thesis by (simp add: Let_def)
  qed
qed

lemma live_extraction_without_method:
  "fst (live_extraction None w self urljoin clock) = []"
  unfolding live_extraction_def by (rule try_urls_without_method)

lemma fallback_extraction_without_method:
  "fallback_extraction None urljoin clock n = Inl (AttributeError ''_determine_area'')"
proof -
  have j: "joined_link urljoin [] = Inr []"
    by (simp add: joined_link_def)
  have "create_course_from_text None urljoin clock n ''BSc Economics'' [] ''undergraduate''
      = (Inl (AttributeError ''_determine_area''), Suc n)"
    by (rule create_no_method [OF _ j]) simp
  then show ?thesis
    by (simp add: fallback_extraction_def known_programmes_def)
qed

text \<open>
  Claim C4 has \<^verbatim>\<open>get_courses()\<close> return the catalogue when the live extraction finds
  nothing. For an object of the class as \<^verbatim>\<open>fix_lse_scraper.py\<close> writes it no record is
  ever built, so the fallback is always reached, and its first call of the constructor,
  for \<^verbatim>\<open>'BSc Economics'\<close>, raises \<^verbatim>\<open>AttributeError\<close> outside any handler:
  \<^verbatim>\<open>get_courses()\<close> raises, on every site and so on a site whose pages render with
  nothing on them.
\<close>

theorem get_courses_raises_without_method:
  "LSE_get_courses None w self urljoin clock = Inl (AttributeError ''_determine_area'')
   \<and> LSE_get_courses None blank_web browser_scraper site_urljoin (\<lambda>k. k)
       = Inl (AttributeError ''_determine_area'')"
proof -
  have raises: "LSE_get_courses None w self urljoin clock = Inl (AttributeError ''_determine_area'')"
    for w self urljoin clock
  proof -
  obtain found n where l: "live_extraction None w self urljoin clock = (found, n)"
    by (cases "live_extraction None w self urljoin clock")
  with live_extraction_without_method [of w self urljoin clock] have "found = []" by simp
  with l show ?thesis
    by (simp add: LSE_get_courses_def fallback_extraction_without_method)
  qed
  from raises [of w self urljoin clock] raises [of blank_web browser_scraper site_urljoin "\<lambda>k. k"]
  show ?thesis by (rule conjI)
qed

text \<open>Without a running browser no candidate page is read, and the live extraction is
  empty.\<close>

lemma try_urls_without_driver:
  "\<not> (use_selenium self \<and> driver self) \<Longrightarrow>
   try_urls determine_area w self urljoin clock infos state = state"
  by (induction infos arbitrary: state) auto

lemma live_extraction_without_driver:
  "\<not> (use_selenium self \<and> driver self) \<Longrightarrow>
   live_extraction determine_area w self urljoin clock = ([], 0)"
  unfolding live_extraction_def by (rule try_urls_without_driver)


text \<open>
  With the method supplied the fallback does what it is written for: when the live
  extraction finds nothing, \<^verbatim>\<open>get_courses()\<close> returns one record for each entry of the
  catalogue, in order, with the entry's name and the degree level, duration and subject
  area that the constructor gives it; none is lost to the removal of duplicates or to
  the cap.
\<close>

lemma fallback_loop_with_method:
  assumes "list_all (\<lambda>entry. fst entry \<noteq> []) entries"
  shows "fallback_loop (Some area_of) urljoin clock entries (courses, n)
     = Inr (courses @ map (catalogue_record area_of clock) (enumerate n entries))"
  using assms
proof (induction entries arbitrary: courses n)
  case Nil
  show ?case by simp
next
  case (Cons entry rest)
  obtain name prog_type where entry: "entry = (name, prog_type)" by (cases entry)
  with Cons.prems have ne: "name \<noteq> []" and rest: "list_all (\<lambda>entry. fst entry \<noteq> []) rest"
    by simp_all
  have j: "joined_link urljoin [] = Inr []"
    by (simp add: joined_link_def)
  from create_with_method [OF ne j, of area_of clock n prog_type]
  have c: "create_course_from_text (Some area_of) urljoin clock n name [] prog_type
      = (Inr (Some (catalogue_record area_of clock (n, name, prog_type))), Suc n)"
    by (simp add: catalogue_record_def)
  from Cons.IH [OF rest, of "courses @ [catalogue_record area_of clock (n, name, prog_type)]" "Suc n"]
    entry c
  show ?case by simp
qed

lemma known_programmes_facts:
  "list_all (\<lambda>entry. fst entry \<noteq> []) known_programmes"
  "map (\<lambda>entry. clean_text (fst entry)) known_programmes = map fst known_programmes"
  "distinct (map fst known_programmes)"
  "length known_programmes = 25"
  by code_simp+

lemma catalogue_record_fields:
  "degree_course_name (catalogue_record area_of clock (k, name, prog_type)) = clean_text name"
  "degree_course_type (catalogue_record area_of clock (k, name, prog_type))
     = fst (degree_level prog_type name)"
  "degree_course_period_years (catalogue_record area_of clock (k, name, prog_type))
     = snd (degree_level prog_type name)"
  "course_area (catalogue_record area_of clock (k, name, prog_type)) = area_of (clean_text name)"
  by (simp_all add: catalogue_record_def LSE_course_def)

lemma catalogue_names:
  "map degree_course_name (map (catalogue_record area_of clock) (enumerate n entries))
     = map (\<lambda>entry. clean_text (fst entry)) entries"
  by (induction entries arbitrary: n) (auto simp: catalogue_record_fields)

lemma fallback_with_method:
  assumes "fst (live_extraction (Some area_of) w self urljoin clock) = []"
  shows "\<exists>n. LSE_get_courses (Some area_of) w self urljoin clock
             = Inr (map (catalogue_record area_of clock) (enumerate n known_programmes))
     \<and> map degree_course_name (map (catalogue_record area_of clock) (enumerate n known_programmes))
         = map fst known_programmes"
proof -
  obtain found n where l: "live_extraction (Some area_of) w self urljoin clock = (found, n)"
    by (cases "live_extraction (Some area_of) w self urljoin clock")
  with assms have found: "found = []" by simp
  let ?records = "map (catalogue_record area_of clock) (enumerate n known_programmes)"
  have fb: "fallback_extraction (Some area_of) urljoin clock n = Inr ?records"
    using fallback_loop_with_method [OF known_programmes_facts(1), of area_of urljoin clock "[]" n]
    by (simp add: fallback_extraction_def)
  have names: "map degree_course_name ?records = map fst known_programmes"
    by (simp only: catalogue_names known_programmes_facts(2))
  have "[] \<notin> set (map fst known_programmes)"
    using known_programmes_facts(1) by (auto simp: list_all_iff)
  with names known_programmes_facts(3)
  have "unique_courses ?records {} = ?records"
    by (intro unique_courses_keeps) simp_all
  moreover have "length ?records = 25"
    by (simp add: known_programmes_facts(4))
  ultimately have "LSE_get_courses (Some area_of) w self urljoin clock = Inr ?records"
    using l found fb by (simp add: LSE_get_courses_def)
  with names show ?thesis by blast
qed

end
